theory Spec2Isabelle
  imports Main "HOL-Library.Sublist"
begin

section \<open>Data model\<close>

text \<open>
  Discord identifiers are strings (snowflakes).  A role and a member carry, next to
  their id, the text that JavaScript's string conversion makes of the object (the
  mention); the client library computes it, so it is a field here.
\<close>

type_synonym snowflake = string

record role =
  role_id :: snowflake
  role_mention :: string

record member =
  member_id :: snowflake
  member_roles :: "snowflake list"
  member_mention :: string
  displayName :: string

record row =
  user_id :: snowflake
  points :: int

text \<open>
  A guild: its collections are insertion-ordered maps keyed by id; \<open>job\<close> is the
  property \<open>guild.job\<close>, the handle of the job last stored there.
\<close>

record guild =
  guild_id :: snowflake
  guild_name :: string
  channels :: "snowflake list"
  members :: "member list"
  roles :: "role list"
  job :: "nat option"

text \<open>
  The prepared statements of \<open>client.db\<close> that the two functions read.  A statement
  is taken to return: none of them throws.
\<close>

record db =
  selectDefaultChannelId :: "snowflake \<Rightarrow> snowflake option"
  selectLeaderboard :: "snowflake \<Rightarrow> row list"
  selectCrownMessage :: "snowflake \<Rightarrow> string option"
  selectUsePoints :: "snowflake \<Rightarrow> int option"
  selectCrownRoleId :: "snowflake \<Rightarrow> snowflake option"
  selectCrownSchedule :: "snowflake \<Rightarrow> string option"

text \<open>
  What is sent to a channel.  The two diagnostic notices have a fixed wording around the
  role and the member; only these two parts are kept.
\<close>

datatype message =
  StripNotice string string
  | GrantNotice string string
  | CrownMessage string

text \<open>The calls a cycle makes on its collaborators, in the order it makes them.\<close>

datatype event =
  RemoveRole snowflake snowflake
  | AddRole snowflake snowflake
  | ClearPoints snowflake
  | Send snowflake message
  | LogTransferred string string
  | LogScheduled string

datatype error = TypeError | SendRejected

text \<open>
  The outcome of each call on the chat platform: whether the promise of
  \<open>removeRole\<close>, \<open>addRole\<close> (member id, role id) or \<open>send\<close> (channel id, message)
  is fulfilled.
\<close>

record gateway =
  removeRole_ok :: "snowflake \<Rightarrow> snowflake \<Rightarrow> bool"
  addRole_ok :: "snowflake \<Rightarrow> snowflake \<Rightarrow> bool"
  send_ok :: "snowflake \<Rightarrow> message \<Rightarrow> bool"

section \<open>JavaScript values\<close>

text \<open>\<open>if (x)\<close> on a string column: \<open>null\<close>, \<open>undefined\<close> and the empty string are falsy.\<close>

definition truthy :: "string option \<Rightarrow> bool" where
  "truthy x = (case x of None \<Rightarrow> False | Some s \<Rightarrow> s \<noteq> [])"

text \<open>\<open>if (x)\<close> on an integer column: \<open>null\<close>, \<open>undefined\<close> and 0 are falsy.\<close>

definition truthy_int :: "int option \<Rightarrow> bool" where
  "truthy_int x = (case x of None \<Rightarrow> False | Some n \<Rightarrow> n \<noteq> 0)"

definition channels_get :: "guild \<Rightarrow> snowflake \<Rightarrow> snowflake option" where
  "channels_get g i = (if i \<in> set (channels g) then Some i else None)"

definition members_get :: "guild \<Rightarrow> snowflake \<Rightarrow> member option" where
  "members_get g i = find (\<lambda>m. member_id m = i) (members g)"

definition roles_get :: "guild \<Rightarrow> snowflake \<Rightarrow> role option" where
  "roles_get g i = find (\<lambda>r. role_id r = i) (roles g)"

text \<open>The template \<open>${winner}\<close> and the replacement value of an absent winner.\<close>

definition winner_mention :: "member option \<Rightarrow> string" where
  "winner_mention w = (case w of None \<Rightarrow> ''undefined'' | Some m \<Rightarrow> member_mention m)"

subsection \<open>String.prototype.replace with a string pattern\<close>

text \<open>The index of the first occurrence of the pattern.\<close>

fun index_of :: "string \<Rightarrow> string \<Rightarrow> nat option" where
  "index_of pat [] = (if pat = [] then Some 0 else None)"
| "index_of pat (c # cs) =
     (if prefix pat (c # cs) then Some 0 else map_option Suc (index_of pat cs))"

text \<open>
  The replacement text is expanded: \<open>$$\<close> is a dollar sign, \<open>$&\<close> the matched text,
  \<open>$`\<close> what precedes it and \<open>$'\<close> what follows it.  A string pattern has no capture
  groups, so every other \<open>$\<close> stands for itself.
\<close>

fun get_substitution :: "string \<Rightarrow> string \<Rightarrow> string \<Rightarrow> string \<Rightarrow> string" where
  "get_substitution matched pre post [] = []"
| "get_substitution matched pre post [c] = [c]"
| "get_substitution matched pre post (c # d # cs) =
     (if c = CHR ''$'' \<and> d = CHR ''$'' then CHR ''$'' # get_substitution matched pre post cs
      else if c = CHR ''$'' \<and> d = CHR ''&'' then matched @ get_substitution matched pre post cs
      else if c = CHR ''$'' \<and> d = CHR 0x60 then pre @ get_substitution matched pre post cs
      else if c = CHR ''$'' \<and> d = CHR 0x27 then post @ get_substitution matched pre post cs
      else c # get_substitution matched pre post (d # cs))"

definition js_replace :: "string \<Rightarrow> string \<Rightarrow> string \<Rightarrow> string" where
  "js_replace pat rep s =
     (case index_of pat s of
        None \<Rightarrow> s
      | Some i \<Rightarrow>
          take i s
          @ get_substitution pat (take i s) (drop (i + length pat) s) rep
          @ drop (i + length pat) s)"

section \<open>rotateCrown\<close>

definition defaultChannel :: "db \<Rightarrow> guild \<Rightarrow> snowflake option" where
  "defaultChannel d g =
     (case selectDefaultChannelId d (guild_id g) of
        None \<Rightarrow> None
      | Some i \<Rightarrow> if i \<noteq> [] then channels_get g i else None)"

text \<open>
  One callback of the strip phase.  The call of \<open>removeRole\<close> is made while
  \<open>guild.members.map\<close> runs, so every call is issued before any promise settles; the
  \<open>catch\<close> block runs when the promise of that member is rejected.  With a default
  channel the block returns the promise of \<open>send\<close> and so leaves the callback before
  \<open>quit = true\<close>; a rejected \<open>send\<close> rejects the callback.
\<close>

record callback =
  issued :: "event list"
  handled :: "event list"
  sets_quit :: bool
  rejects :: bool

definition strip_member :: "gateway \<Rightarrow> snowflake option \<Rightarrow> role \<Rightarrow> member \<Rightarrow> callback" where
  "strip_member gw dc r m =
     (if role_id r \<in> set (member_roles m) then
        (if removeRole_ok gw (member_id m) (role_id r) then
           \<lparr>issued = [RemoveRole (member_id m) (role_id r)], handled = [],
            sets_quit = False, rejects = False\<rparr>
         else
           (case dc of
              Some ch \<Rightarrow>
                \<lparr>issued = [RemoveRole (member_id m) (role_id r)],
                 handled = [Send ch (StripNotice (role_mention r) (member_mention m))],
                 sets_quit = False,
                 rejects = (\<not> send_ok gw ch (StripNotice (role_mention r) (member_mention m)))\<rparr>
            | None \<Rightarrow>
                \<lparr>issued = [RemoveRole (member_id m) (role_id r)], handled = [],
                 sets_quit = True, rejects = False\<rparr>))
      else \<lparr>issued = [], handled = [], sets_quit = False, rejects = False\<rparr>)"

text \<open>
  \<open>await Promise.all(guild.members.map(...))\<close>: the calls, then the handlers (taken in
  the order of the members; the order in which the promises settle is the platform's),
  the value of \<open>quit\<close> afterwards, and whether the awaited promise is rejected.
\<close>

definition strip_phase ::
  "gateway \<Rightarrow> snowflake option \<Rightarrow> role \<Rightarrow> member list \<Rightarrow> event list \<times> bool \<times> bool" where
  "strip_phase gw dc r ms =
     (let cbs = map (strip_member gw dc r) ms in
      (concat (map issued cbs) @ concat (map handled cbs),
       list_ex sets_quit cbs,
       list_ex rejects cbs))"

text \<open>The crown message: both replacements happen only when the template is truthy.\<close>

definition render_crown_message :: "string \<Rightarrow> string \<Rightarrow> string \<Rightarrow> string" where
  "render_crown_message t mref rref = js_replace ''?role'' rref (js_replace ''?member'' mref t)"

definition crownMessage :: "db \<Rightarrow> guild \<Rightarrow> role \<Rightarrow> member option \<Rightarrow> string option" where
  "crownMessage d g r w =
     (case selectCrownMessage d (guild_id g) of
        None \<Rightarrow> None
      | Some t \<Rightarrow>
          if t \<noteq> [] then Some (render_crown_message t (winner_mention w) (role_mention r))
          else Some t)"

text \<open>
  Lines 43 to 52.  The promise of the last \<open>send\<close> is neither awaited nor returned.
  Reading \<open>winner.displayName\<close> of an absent winner throws.
\<close>

definition announce ::
  "db \<Rightarrow> snowflake option \<Rightarrow> guild \<Rightarrow> role \<Rightarrow> member option \<Rightarrow> event list \<times> (error + unit)" where
  "announce d dc g r w =
     (let sent =
        (case dc of
           None \<Rightarrow> []
         | Some ch \<Rightarrow>
             (case crownMessage d g r w of
                None \<Rightarrow> []
              | Some t \<Rightarrow> if t \<noteq> [] then [Send ch (CrownMessage t)] else []))
      in case w of
           None \<Rightarrow> (sent, Inl TypeError)
         | Some m \<Rightarrow> (sent @ [LogTransferred (guild_name g) (displayName m)], Inr ()))"

text \<open>
  The \<open>try\<close> block of lines 32 to 41: \<open>addRole\<close>, then \<open>clearPoints\<close>.  Calling
  \<open>addRole\<close> on an absent winner throws inside the block.  The result says whether the
  block completed.
\<close>

definition try_grant :: "gateway \<Rightarrow> guild \<Rightarrow> role \<Rightarrow> member option \<Rightarrow> event list \<times> bool" where
  "try_grant gw g r w =
     (case w of
        None \<Rightarrow> ([], False)
      | Some m \<Rightarrow>
          if addRole_ok gw (member_id m) (role_id r)
          then ([AddRole (member_id m) (role_id r), ClearPoints (guild_id g)], True)
          else ([AddRole (member_id m) (role_id r)], False))"

definition grant_phase ::
  "gateway \<Rightarrow> db \<Rightarrow> snowflake option \<Rightarrow> guild \<Rightarrow> role \<Rightarrow> member option
     \<Rightarrow> event list \<times> (error + unit)" where
  "grant_phase gw d dc g r w =
     (case try_grant gw g r w of
        (t, completed) \<Rightarrow>
          if completed then (t @ fst (announce d dc g r w), snd (announce d dc g r w))
          else
            (case dc of
               Some ch \<Rightarrow>
                 (t @ [Send ch (GrantNotice (role_mention r) (winner_mention w))],
                  if send_ok gw ch (GrantNotice (role_mention r) (winner_mention w))
                  then Inr () else Inl SendRejected)
             | None \<Rightarrow> (t @ fst (announce d dc g r w), snd (announce d dc g r w))))"

text \<open>
  The whole cycle: the calls made, and how the promise of \<open>rotateCrown\<close> settles
  (\<open>Inl\<close>: rejected).  Of the \<open>client\<close> the cycle uses the database and the
  logger; the platform's answers are the first argument.
  \<open>leaderboard[0].user_id\<close> throws on an empty leaderboard.
\<close>

definition rotateCrown :: "gateway \<Rightarrow> db \<Rightarrow> guild \<Rightarrow> role \<Rightarrow> event list \<times> (error + unit)" where
  "rotateCrown gw d g r =
     (let dc = defaultChannel d g in
      case selectLeaderboard d (guild_id g) of
        [] \<Rightarrow> ([], Inl TypeError)
      | entry # _ \<Rightarrow>
          (let w = members_get g (user_id entry) in
           case strip_phase gw dc r (members g) of
             (t, quit, rejected) \<Rightarrow>
               if rejected then (t, Inl SendRejected)
               else if quit then (t, Inr ())
               else (t @ fst (grant_phase gw d dc g r w), snd (grant_phase gw d dc g r w))))"

section \<open>scheduleCrown\<close>

text \<open>
  The scheduling library keeps every job it has scheduled until that job is cancelled;
  \<open>scheduleJob\<close> adds one and returns its handle, or returns \<open>null\<close> when the
  expression does not parse.  Parsing is the library's and is a parameter.  A job
  remembers the guild and the role its callback closes over.
\<close>

record scheduled =
  job_no :: nat
  job_cron :: string
  job_guild :: snowflake
  job_role :: role

record scheduler =
  scheduledJobs :: "scheduled list"
  next_no :: nat

definition scheduleJob ::
  "(string \<Rightarrow> bool) \<Rightarrow> string \<Rightarrow> snowflake \<Rightarrow> role \<Rightarrow> scheduler \<Rightarrow> scheduler \<times> nat option" where
  "scheduleJob parses cron gid r s =
     (if parses cron
      then (\<lparr>scheduledJobs = scheduledJobs s
               @ [\<lparr>job_no = next_no s, job_cron = cron, job_guild = gid, job_role = r\<rparr>],
             next_no = Suc (next_no s)\<rparr>,
            Some (next_no s))
      else (s, None))"

definition crownRole :: "db \<Rightarrow> guild \<Rightarrow> role option" where
  "crownRole d g =
     (case selectCrownRoleId d (guild_id g) of
        None \<Rightarrow> None
      | Some i \<Rightarrow> if i \<noteq> [] then roles_get g i else None)"

definition scheduleCrown ::
  "(string \<Rightarrow> bool) \<Rightarrow> db \<Rightarrow> scheduler \<Rightarrow> guild \<Rightarrow> scheduler \<times> guild \<times> event list" where
  "scheduleCrown parses d s g =
     (case (truthy_int (selectUsePoints d (guild_id g)), crownRole d g,
            selectCrownSchedule d (guild_id g)) of
        (True, Some r, Some cron) \<Rightarrow>
          if cron \<noteq> [] then
            (case scheduleJob parses cron (guild_id g) r s of
               (s', h) \<Rightarrow> (s', g\<lparr>job := h\<rparr>, [LogScheduled (guild_name g)]))
          else (s, g, [LogScheduled (guild_name g)])
      | _ \<Rightarrow> (s, g, [LogScheduled (guild_name g)]))"

text \<open>
  A fire of a job runs its callback on the guild as it is then.  The callback calls
  \<open>rotateCrown\<close> and drops its promise; it has no access to the scheduler.
\<close>

definition fire ::
  "gateway \<Rightarrow> db \<Rightarrow> guild \<Rightarrow> scheduled \<Rightarrow> scheduler \<Rightarrow> scheduler \<times> event list \<times> (error + unit)" where
  "fire gw d g j s = (s, rotateCrown gw d g (job_role j))"

section \<open>Observations on a trace\<close>

fun is_remove :: "event \<Rightarrow> bool" where
  "is_remove (RemoveRole _ _) = True"
| "is_remove _ = False"

fun is_add :: "event \<Rightarrow> bool" where
  "is_add (AddRole _ _) = True"
| "is_add _ = False"

fun is_clear :: "event \<Rightarrow> bool" where
  "is_clear (ClearPoints _) = True"
| "is_clear _ = False"

fun is_send :: "event \<Rightarrow> bool" where
  "is_send (Send _ _) = True"
| "is_send _ = False"

text \<open>An \<open>addRole\<close> call that the platform fulfilled.\<close>

fun granted :: "gateway \<Rightarrow> event \<Rightarrow> bool" where
  "granted gw (AddRole m r) = addRole_ok gw m r"
| "granted gw _ = False"

text \<open>The members that hold the role, and the calls the strip phase owes them.\<close>

definition holders :: "role \<Rightarrow> member list \<Rightarrow> member list" where
  "holders r ms = filter (\<lambda>m. role_id r \<in> set (member_roles m)) ms"

definition strip_calls :: "role \<Rightarrow> member list \<Rightarrow> event list" where
  "strip_calls r ms = map (\<lambda>m. RemoveRole (member_id m) (role_id r)) (holders r ms)"

text \<open>
  The holders whose removal the platform rejects, and the notices their handlers send to
  a channel.
\<close>

definition failed_holders :: "gateway \<Rightarrow> role \<Rightarrow> member list \<Rightarrow> member list" where
  "failed_holders gw r ms =
     filter (\<lambda>m. \<not> removeRole_ok gw (member_id m) (role_id r)) (holders r ms)"

definition strip_notices :: "snowflake \<Rightarrow> role \<Rightarrow> member list \<Rightarrow> event list" where
  "strip_notices ch r ms =
     map (\<lambda>m. Send ch (StripNotice (role_mention r) (member_mention m))) ms"

section \<open>Replacing the first occurrence\<close>

text \<open>
  What it means to replace the leftmost occurrence of a pattern: the pattern occurs at
  index \<open>i\<close> and at no smaller index, and the text from there on, as long as the
  pattern, gives way to the replacement; a string without the pattern stays as it is.
\<close>

definition occurs_at :: "string \<Rightarrow> string \<Rightarrow> nat \<Rightarrow> bool" where
  "occurs_at pat s i \<longleftrightarrow> i \<le> length s \<and> prefix pat (drop i s)"

definition first_occurrence :: "string \<Rightarrow> string \<Rightarrow> nat \<Rightarrow> bool" where
  "first_occurrence pat s i \<longleftrightarrow> occurs_at pat s i \<and> (\<forall>j<i. \<not> occurs_at pat s j)"

definition replaces_first :: "string \<Rightarrow> string \<Rightarrow> string \<Rightarrow> string \<Rightarrow> bool" where
  "replaces_first pat rep s s' \<longleftrightarrow>
     (\<exists>i\<le>length s. first_occurrence pat s i \<and> s' = take i s @ rep @ drop (i + length pat) s)
     \<or> ((\<forall>i\<le>length s. \<not> occurs_at pat s i) \<and> s' = s)"

section \<open>Concrete guilds\<close>

definition crown :: role where
  "crown = \<lparr>role_id = ''900'', role_mention = ''<@&900>''\<rparr>"

definition m1 :: member where
  "m1 = \<lparr>member_id = ''1'', member_roles = [''900''], member_mention = ''<@1>'',
          displayName = ''Ann''\<rparr>"

definition m2 :: member where
  "m2 = \<lparr>member_id = ''2'', member_roles = [''900'', ''901''], member_mention = ''<@2>'',
          displayName = ''Bob''\<rparr>"

definition m3 :: member where
  "m3 = \<lparr>member_id = ''3'', member_roles = [], member_mention = ''<@3>'',
          displayName = ''Cy''\<rparr>"

definition g0 :: guild where
  "g0 = \<lparr>guild_id = ''77'', guild_name = ''Agora'', channels = [''500''],
          members = [m1, m2, m3], roles = [crown], job = None\<rparr>"

text \<open>
  Settings of guild 77: channel, leaderboard and message template vary; points are
  enabled, the crown role is 900 and the schedule is weekly.
\<close>

definition db0 :: "snowflake option \<Rightarrow> row list \<Rightarrow> string option \<Rightarrow> db" where
  "db0 ch lb msg =
     \<lparr>selectDefaultChannelId = (\<lambda>_. ch), selectLeaderboard = (\<lambda>_. lb),
      selectCrownMessage = (\<lambda>_. msg), selectUsePoints = (\<lambda>_. Some 1),
      selectCrownRoleId = (\<lambda>_. Some ''900''), selectCrownSchedule = (\<lambda>_. Some ''0 0 * * 0'')\<rparr>"

text \<open>A platform where every call succeeds except \<open>removeRole\<close> on the listed members.\<close>

definition gw_fail_remove :: "snowflake list \<Rightarrow> gateway" where
  "gw_fail_remove bad =
     \<lparr>removeRole_ok = (\<lambda>m _. m \<notin> set bad), addRole_ok = (\<lambda>_ _. True), send_ok = (\<lambda>_ _. True)\<rparr>"

definition s0 :: scheduler where
  "s0 = \<lparr>scheduledJobs = [], next_no = 0\<rparr>"

text \<open>Settings of guild 77 for scheduling: the flag, the role id and the schedule vary.\<close>

definition db1 :: "int option \<Rightarrow> snowflake option \<Rightarrow> string option \<Rightarrow> db" where
  "db1 use rid cron =
     \<lparr>selectDefaultChannelId = (\<lambda>_. None), selectLeaderboard = (\<lambda>_. []),
      selectCrownMessage = (\<lambda>_. None), selectUsePoints = (\<lambda>_. use),
      selectCrownRoleId = (\<lambda>_. rid), selectCrownSchedule = (\<lambda>_. cron)\<rparr>"

text \<open>A platform where every removal fails and no message goes through.\<close>

definition gw_fail_send :: gateway where
  "gw_fail_send =
     \<lparr>removeRole_ok = (\<lambda>_ _. False), addRole_ok = (\<lambda>_ _. True), send_ok = (\<lambda>_ _. False)\<rparr>"

section \<open>Evaluation of concrete cycles\<close>

lemmas run_defs =
  rotateCrown_def defaultChannel_def channels_get_def members_get_def strip_phase_def
  strip_member_def grant_phase_def try_grant_def announce_def crownMessage_def
  render_crown_message_def js_replace_def winner_mention_def
  db0_def g0_def crown_def m1_def m2_def m3_def gw_fail_remove_def

section \<open>The first occurrence is what is replaced\<close>

lemma occurs_at_Cons_Suc: "occurs_at pat (c # cs) (Suc i) = occurs_at pat cs i"
  by (simp add: occurs_at_def)

lemma occurs_at_0: "occurs_at pat s 0 = prefix pat s"
  by (simp add: occurs_at_def)

lemma index_of_first: "index_of pat s = Some i \<longleftrightarrow> first_occurrence pat s i"
proof (induction s arbitrary: i)
  case Nil
  then show ?case by (auto simp: first_occurrence_def occurs_at_def)
next
  case (Cons c cs)
  show ?case
  proof (cases "prefix pat (c # cs)")
    case True
    then have "first_occurrence pat (c # cs) i \<longleftrightarrow> i = 0"
      unfolding first_occurrence_def using occurs_at_0 [of pat "c # cs"] by (cases i) auto
    with True show ?thesis by auto
  next
    case False
    then have z: "\<not> occurs_at pat (c # cs) 0" by (simp add: occurs_at_0)
    show ?thesis
    proof (cases i)
      case 0
      with False z show ?thesis by (auto simp: first_occurrence_def)
    next
      case (Suc k)
      have "(\<forall>j<Suc k. \<not> occurs_at pat (c # cs) j) \<longleftrightarrow> (\<forall>j<k. \<not> occurs_at pat cs j)"
        using z by (auto simp: less_Suc_eq_0_disj occurs_at_Cons_Suc)
      then have "first_occurrence pat (c # cs) (Suc k) \<longleftrightarrow> first_occurrence pat cs k"
        by (simp add: first_occurrence_def occurs_at_Cons_Suc)
      with False Suc Cons.IH [of k] show ?thesis by auto
    qed
  qed
qed

lemma index_of_absent: "index_of pat s = None \<longleftrightarrow> (\<forall>i\<le>length s. \<not> occurs_at pat s i)"
proof (induction s)
  case Nil
  then show ?case by (auto simp: occurs_at_def)
next
  case (Cons c cs)
  have "(\<forall>i\<le>length (c # cs). \<not> occurs_at pat (c # cs) i)
      \<longleftrightarrow> \<not> prefix pat (c # cs) \<and> (\<forall>i\<le>length cs. \<not> occurs_at pat cs i)"
    (is "?L \<longleftrightarrow> ?R")
  proof
    assume l: ?L
    then have "\<not> occurs_at pat (c # cs) 0" by simp
    moreover have "\<not> occurs_at pat (c # cs) (Suc i)" if "i \<le> length cs" for i
      using l that by simp
    ultimately show ?R by (simp add: occurs_at_0 occurs_at_Cons_Suc)
  next
    assume r: ?R
    show ?L
    proof (intro allI impI)
      fix i assume "i \<le> length (c # cs)"
      with r show "\<not> occurs_at pat (c # cs) i"
        by (cases i) (simp_all add: occurs_at_0 occurs_at_Cons_Suc)
    qed
  qed
  with Cons show ?case by auto
qed

lemma get_substitution_plain:
  "CHR ''$'' \<notin> set rep \<Longrightarrow> get_substitution matched pre post rep = rep"
  by (induction matched pre post rep rule: get_substitution.induct) auto

lemma js_replace_first:
  assumes "CHR ''$'' \<notin> set rep"
  shows "replaces_first pat rep s (js_replace pat rep s)"
proof (cases "index_of pat s")
  case None
  then have "js_replace pat rep s = s" by (simp add: js_replace_def)
  moreover from None have "\<forall>i\<le>length s. \<not> occurs_at pat s i" by (simp add: index_of_absent)
  ultimately show ?thesis by (simp add: replaces_first_def)
next
  case (Some i)
  then have f: "first_occurrence pat s i" by (simp add: index_of_first)
  then have "i \<le> length s" by (simp add: first_occurrence_def occurs_at_def)
  with f Some assms show ?thesis
    by (auto simp: replaces_first_def js_replace_def get_substitution_plain)
qed


section \<open>The shape of a trace\<close>

lemma issued_strip_calls:
  "concat (map (issued \<circ> strip_member gw dc r) ms) = strip_calls r ms"
  by (induction ms) (auto simp: strip_member_def strip_calls_def holders_def split: option.splits)

lemma handled_sends:
  "e \<in> set (concat (map (handled \<circ> strip_member gw dc r) ms)) \<Longrightarrow> is_send e"
  by (induction ms) (auto simp: strip_member_def split: option.splits if_splits)

lemma handled_without_channel:
  "concat (map (handled \<circ> strip_member gw None r) ms) = []"
  by (induction ms) (auto simp: strip_member_def)

lemma strip_phase_trace:
  "fst (strip_phase gw dc r ms)
     = strip_calls r ms @ concat (map (handled \<circ> strip_member gw dc r) ms)"
  by (simp add: strip_phase_def Let_def issued_strip_calls)

lemma strip_phase_quit:
  "fst (snd (strip_phase gw dc r ms)) \<longleftrightarrow>
     dc = None \<and> (\<exists>m \<in> set ms. role_id r \<in> set (member_roles m)
                    \<and> \<not> removeRole_ok gw (member_id m) (role_id r))"
  by (induction ms) (auto simp: strip_phase_def Let_def strip_member_def split: option.splits)

lemma strip_phase_rejected:
  "snd (snd (strip_phase gw dc r ms)) \<longleftrightarrow>
     (\<exists>ch. dc = Some ch \<and> (\<exists>m \<in> set ms. role_id r \<in> set (member_roles m)
                    \<and> \<not> removeRole_ok gw (member_id m) (role_id r)
                    \<and> \<not> send_ok gw ch (StripNotice (role_mention r) (member_mention m))))"
  by (induction ms) (auto simp: strip_phase_def Let_def strip_member_def split: option.splits)

lemma strip_calls_removes: "e \<in> set (strip_calls r ms) \<Longrightarrow> is_remove e"
  by (auto simp: strip_calls_def)

lemma strip_phase_events:
  "e \<in> set (fst (strip_phase gw dc r ms)) \<Longrightarrow> is_remove e \<or> is_send e"
  using strip_calls_removes [of e r ms] handled_sends [of e gw dc r ms]
  by (auto simp: strip_phase_trace)

lemma announce_events:
  "e \<in> set (fst (announce d dc g r w)) \<Longrightarrow> \<not> is_remove e \<and> \<not> is_add e \<and> \<not> is_clear e"
  by (auto simp: announce_def Let_def split: option.splits if_splits)

lemma try_grant_cases:
  "try_grant gw g r w = ([], False) \<and> w = None
   \<or> (\<exists>m. w = Some m \<and> addRole_ok gw (member_id m) (role_id r)
          \<and> try_grant gw g r w = ([AddRole (member_id m) (role_id r), ClearPoints (guild_id g)], True))
   \<or> (\<exists>m. w = Some m \<and> \<not> addRole_ok gw (member_id m) (role_id r)
          \<and> try_grant gw g r w = ([AddRole (member_id m) (role_id r)], False))"
  by (cases w) (auto simp: try_grant_def)

lemma grant_phase_trace:
  "\<exists>X. (\<forall>e \<in> set X. \<not> is_remove e \<and> \<not> is_add e \<and> \<not> is_clear e)
       \<and> fst (grant_phase gw d dc g r w) = fst (try_grant gw g r w) @ X"
proof (cases "try_grant gw g r w")
  case (Pair t ok)
  show ?thesis
  proof (cases "ok \<or> dc = None")
    case True
    with Pair have "fst (grant_phase gw d dc g r w) = t @ fst (announce d dc g r w)"
      by (auto simp: grant_phase_def)
    with Pair announce_events show ?thesis by fastforce
  next
    case False
    then obtain ch where "dc = Some ch" and "\<not> ok" by auto
    with Pair have "fst (grant_phase gw d dc g r w)
        = t @ [Send ch (GrantNotice (role_mention r) (winner_mention w))]"
      by (simp add: grant_phase_def)
    with Pair show ?thesis by simp
  qed
qed

lemma rotateCrown_trace:
  "fst (rotateCrown gw d g r) = []
   \<or> (fst (snd (strip_phase gw (defaultChannel d g) r (members g)))
        \<or> snd (snd (strip_phase gw (defaultChannel d g) r (members g))))
      \<and> fst (rotateCrown gw d g r) = fst (strip_phase gw (defaultChannel d g) r (members g))
   \<or> \<not> fst (snd (strip_phase gw (defaultChannel d g) r (members g)))
      \<and> (\<exists>w. fst (rotateCrown gw d g r)
             = fst (strip_phase gw (defaultChannel d g) r (members g))
               @ fst (grant_phase gw d (defaultChannel d g) g r w))"
  by (cases "strip_phase gw (defaultChannel d g) r (members g)")
     (auto simp: rotateCrown_def Let_def split: list.splits)

lemma granted_is_add: "granted gw e \<Longrightarrow> is_add e"
  by (cases e) simp_all

lemma strip_phase_quiet:
  assumes "e \<in> set (fst (strip_phase gw dc r ms))"
  shows "\<not> is_add e \<and> \<not> is_clear e"
  using strip_phase_events [OF assms] by (cases e) simp_all

lemma strip_phase_filters:
  "filter is_clear (fst (strip_phase gw dc r ms)) = []"
  "filter is_add (fst (strip_phase gw dc r ms)) = []"
  "\<not> list_ex (granted gw) (fst (strip_phase gw dc r ms))"
  "\<not> list_ex is_add (fst (strip_phase gw dc r ms))"
  "\<not> list_ex is_clear (fst (strip_phase gw dc r ms))"
  using strip_phase_quiet [of _ gw dc r ms] granted_is_add [of gw]
  by (auto simp: filter_empty_conv list_ex_iff)

lemma quiet_filters:
  assumes "\<forall>e \<in> set X. \<not> is_remove e \<and> \<not> is_add e \<and> \<not> is_clear e"
  shows "filter is_clear X = []" "filter is_add X = []" "\<not> list_ex (granted gw) X"
    "\<not> list_ex is_add X" "\<not> list_ex is_clear X"
  using assms granted_is_add [of gw]
  by (auto simp: filter_empty_conv list_ex_iff)


lemma strip_calls_filter: "filter is_remove (strip_calls r ms) = strip_calls r ms"
  by (simp add: strip_calls_def filter_map comp_def)

lemma handled_no_remove:
  "filter is_remove (concat (map (handled \<circ> strip_member gw dc r) ms)) = []"
proof -
  have "\<And>e. is_send e \<Longrightarrow> \<not> is_remove e" by (case_tac e) simp_all
  with handled_sends [of _ gw dc r ms] show ?thesis
    by (auto simp: filter_empty_conv simp del: set_concat)
qed

lemma grant_phase_no_remove: "\<not> list_ex is_remove (fst (grant_phase gw d dc g r w))"
proof -
  obtain X where X: "\<forall>e \<in> set X. \<not> is_remove e \<and> \<not> is_add e \<and> \<not> is_clear e"
    and G: "fst (grant_phase gw d dc g r w) = fst (try_grant gw g r w) @ X"
    using grant_phase_trace by blast
  from X have "\<not> list_ex is_remove X" by (simp add: list_ex_iff)
  moreover have "\<not> list_ex is_remove (fst (try_grant gw g r w))"
    by (auto simp: try_grant_def split: option.splits)
  ultimately show ?thesis using G by simp
qed

lemma rotateCrown_after_strip:
  assumes "selectLeaderboard d (guild_id g) \<noteq> []"
  shows "fst (rotateCrown gw d g r) = fst (strip_phase gw (defaultChannel d g) r (members g))
    \<or> (\<exists>w. fst (rotateCrown gw d g r)
          = fst (strip_phase gw (defaultChannel d g) r (members g))
            @ fst (grant_phase gw d (defaultChannel d g) g r w))"
  using assms
  by (cases "strip_phase gw (defaultChannel d g) r (members g)")
     (auto simp: rotateCrown_def Let_def split: list.splits)

lemma handled_with_channel:
  "concat (map (handled \<circ> strip_member gw (Some ch) r) ms)
     = strip_notices ch r (failed_holders gw r ms)"
  by (induction ms) (auto simp: strip_member_def strip_notices_def failed_holders_def holders_def)

lemma strip_phase_quit_failed:
  "fst (snd (strip_phase gw dc r ms)) \<longleftrightarrow> dc = None \<and> failed_holders gw r ms \<noteq> []"
  by (auto simp: strip_phase_quit failed_holders_def holders_def filter_empty_conv)

lemma strip_phase_rejected_failed:
  "snd (snd (strip_phase gw (Some ch) r ms)) \<longleftrightarrow>
     (\<exists>m \<in> set (failed_holders gw r ms).
        \<not> send_ok gw ch (StripNotice (role_mention r) (member_mention m)))"
  by (auto simp: strip_phase_rejected failed_holders_def holders_def)

lemma rotateCrown_decision:
  assumes lb: "selectLeaderboard d (guild_id g) = e # es"
  shows "case defaultChannel d g of
       None \<Rightarrow>
         if failed_holders gw r (members g) \<noteq> []
         then rotateCrown gw d g r = (strip_calls r (members g), Inr ())
         else rotateCrown gw d g r =
           (strip_calls r (members g)
              @ fst (grant_phase gw d None g r (members_get g (user_id e))),
            snd (grant_phase gw d None g r (members_get g (user_id e))))
     | Some ch \<Rightarrow>
         if list_ex (\<lambda>m. \<not> send_ok gw ch (StripNotice (role_mention r) (member_mention m)))
              (failed_holders gw r (members g))
         then rotateCrown gw d g r =
           (strip_calls r (members g) @ strip_notices ch r (failed_holders gw r (members g)),
            Inl SendRejected)
         else rotateCrown gw d g r =
           (strip_calls r (members g) @ strip_notices ch r (failed_holders gw r (members g))
              @ fst (grant_phase gw d (Some ch) g r (members_get g (user_id e))),
            snd (grant_phase gw d (Some ch) g r (members_get g (user_id e))))"
proof (cases "defaultChannel d g")
  case None
  obtain t q rj where sp: "strip_phase gw None r (members g) = (t, q, rj)"
    by (cases "strip_phase gw None r (members g)") auto
  have t: "t = strip_calls r (members g)"
    using strip_phase_trace [of gw None r "members g"] sp by (simp add: handled_without_channel)
  have q: "q \<longleftrightarrow> failed_holders gw r (members g) \<noteq> []"
    using strip_phase_quit_failed [of gw None r "members g"] sp by simp
  have rj: "\<not> rj"
    using strip_phase_rejected [of gw None r "members g"] sp by simp
  show ?thesis using None by (simp add: rotateCrown_def Let_def lb sp t q rj)
next
  case (Some ch)
  obtain t q rj where sp: "strip_phase gw (Some ch) r (members g) = (t, q, rj)"
    by (cases "strip_phase gw (Some ch) r (members g)") auto
  have t: "t = strip_calls r (members g) @ strip_notices ch r (failed_holders gw r (members g))"
    using strip_phase_trace [of gw "Some ch" r "members g"] sp by (simp add: handled_with_channel)
  have q: "\<not> q"
    using strip_phase_quit_failed [of gw "Some ch" r "members g"] sp by simp
  have rj: "rj \<longleftrightarrow> list_ex (\<lambda>m. \<not> send_ok gw ch (StripNotice (role_mention r) (member_mention m)))
              (failed_holders gw r (members g))"
    using strip_phase_rejected_failed [of gw ch r "members g"] sp by (simp add: list_ex_iff)
  show ?thesis using Some by (simp add: rotateCrown_def Let_def lb sp t q rj)
qed

lemma announce_returns: "snd (announce d dc g r (Some m)) = Inr ()"
  by (simp add: announce_def Let_def)

lemma grant_phase_returns:
  assumes "\<forall>ch msg. send_ok gw ch msg"
  shows "snd (grant_phase gw d dc g r (Some m)) = Inr ()"
  using assms
  by (cases "try_grant gw g r (Some m)")
     (auto simp: grant_phase_def announce_returns split: option.splits)

section \<open>Points and the grant\<close>

text \<open>
  C1.  In every cycle the points are cleared exactly when the role-add of the grant phase
  was fulfilled: the trace holds one \<open>clearPoints\<close> call, for the guild of the cycle,
  when a fulfilled \<open>addRole\<close> is in it, and none otherwise; that call follows the
  \<open>addRole\<close> call directly; after a rejected \<open>addRole\<close> and after a strip phase
  that set \<open>quit\<close> no \<open>clearPoints\<close> call is made.
\<close>

theorem points_cleared_iff_granted:
  "let T = fst (rotateCrown gw d g r) in
     filter is_clear T = (if list_ex (granted gw) T then [ClearPoints (guild_id g)] else [])
     \<and> (list_ex (granted gw) T \<longrightarrow>
          (\<exists>A B m. T = A @ [AddRole m (role_id r), ClearPoints (guild_id g)] @ B))
     \<and> (list_ex is_add T \<and> \<not> list_ex (granted gw) T \<longrightarrow> \<not> list_ex is_clear T)
     \<and> (fst (snd (strip_phase gw (defaultChannel d g) r (members g))) \<longrightarrow>
          \<not> list_ex is_add T \<and> \<not> list_ex is_clear T)"
proof -
  define S where "S = fst (strip_phase gw (defaultChannel d g) r (members g))"
  define T where "T = fst (rotateCrown gw d g r)"
  define q where "q = fst (snd (strip_phase gw (defaultChannel d g) r (members g)))"
  let ?P = "\<lambda>T. filter is_clear T = (if list_ex (granted gw) T then [ClearPoints (guild_id g)] else [])
     \<and> (list_ex (granted gw) T \<longrightarrow>
          (\<exists>A B m. T = A @ [AddRole m (role_id r), ClearPoints (guild_id g)] @ B))
     \<and> (list_ex is_add T \<and> \<not> list_ex (granted gw) T \<longrightarrow> \<not> list_ex is_clear T)
     \<and> (q \<longrightarrow> \<not> list_ex is_add T \<and> \<not> list_ex is_clear T)"
  note sf = strip_phase_filters [of gw "defaultChannel d g" r "members g", folded S_def]
  consider (none) "T = []"
    | (strip) "T = S"
    | (grant) w where "\<not> q" "T = S @ fst (grant_phase gw d (defaultChannel d g) g r w)"
    using rotateCrown_trace [of gw d g r] unfolding S_def T_def q_def by blast
  then have "?P T"
  proof cases
    case none
    then show ?thesis by simp
  next
    case strip
    then show ?thesis using sf by simp
  next
    case (grant w)
    obtain X where X: "\<forall>e \<in> set X. \<not> is_remove e \<and> \<not> is_add e \<and> \<not> is_clear e"
      and G: "fst (grant_phase gw d (defaultChannel d g) g r w) = fst (try_grant gw g r w) @ X"
      using grant_phase_trace by blast
    note qf = quiet_filters [OF X]
    from try_grant_cases [of gw g r w] show ?thesis
    proof (elim disjE exE conjE)
      assume "try_grant gw g r w = ([], False)"
      with grant G have "T = S @ X" by simp
      with grant(1) show ?thesis using sf qf by simp
    next
      fix m assume ok: "addRole_ok gw (member_id m) (role_id r)"
        and tg: "try_grant gw g r w = ([AddRole (member_id m) (role_id r), ClearPoints (guild_id g)], True)"
      with grant G have T: "T = S @ [AddRole (member_id m) (role_id r), ClearPoints (guild_id g)] @ X"
        by simp
      then have "\<exists>A B m. T = A @ [AddRole m (role_id r), ClearPoints (guild_id g)] @ B"
        by blast
      moreover have "list_ex (granted gw) T" using T ok by simp
      moreover have "filter is_clear T = [ClearPoints (guild_id g)]"
        using T sf qf by simp
      ultimately show ?thesis using grant(1) by simp
    next
      fix m assume ok: "\<not> addRole_ok gw (member_id m) (role_id r)"
        and tg: "try_grant gw g r w = ([AddRole (member_id m) (role_id r)], False)"
      with grant G have T: "T = S @ [AddRole (member_id m) (role_id r)] @ X" by simp
      have "\<not> list_ex (granted gw) T" using T ok sf qf by simp
      moreover have "filter is_clear T = []" using T sf qf by simp
      moreover have "\<not> list_ex is_clear T" using T sf qf by simp
      ultimately show ?thesis using grant(1) by simp
    qed
  qed
  then show ?thesis unfolding Let_def T_def q_def .
qed


theorem points_cleared_iff_granted_witness:
  "list_ex (granted (gw_fail_remove []))
     (fst (rotateCrown (gw_fail_remove []) (db0 None [\<lparr>user_id = ''3'', points = 50\<rparr>] None) g0 crown))
   \<and> filter is_clear
     (fst (rotateCrown (gw_fail_remove []) (db0 None [\<lparr>user_id = ''3'', points = 50\<rparr>] None) g0 crown))
     = [ClearPoints ''77'']"
proof -
  have "fst (rotateCrown (gw_fail_remove []) (db0 None [\<lparr>user_id = ''3'', points = 50\<rparr>] None) g0 crown)
    = [RemoveRole ''1'' ''900'', RemoveRole ''2'' ''900'', AddRole ''3'' ''900'',
       ClearPoints ''77'', LogTransferred ''Agora'' ''Cy'']"
    by (simp add: run_defs)
  then have "list_ex (granted (gw_fail_remove []))
     (fst (rotateCrown (gw_fail_remove []) (db0 None [\<lparr>user_id = ''3'', points = 50\<rparr>] None) g0 crown))"
    by (simp add: gw_fail_remove_def)
  with points_cleared_iff_granted
    [of "gw_fail_remove []" "db0 None [\<lparr>user_id = ''3'', points = 50\<rparr>] None" g0 crown]
  show ?thesis by (simp add: Let_def g0_def)
qed

section \<open>The strip phase\<close>

text \<open>
  C7.  The strip phase calls \<open>removeRole\<close> on every member that holds the role; the
  calls made are the same whatever the platform answers to any of them, one for each
  holder; in a cycle that reaches the strip phase they all come first.  The decision is
  taken on the answers to all of them: without a default channel the cycle returns after
  the calls as soon as the removal failed for any holder, wherever it stands among the
  members, and goes on to the grant phase only when none failed; with a default channel
  the notice of every failed removal precedes the grant phase, which is reached only
  when all of these notices went through.  No \<open>removeRole\<close> call is made after the
  decision.
\<close>

theorem strip_full_fan_out:
  "(\<forall>m \<in> set ms. role_id r \<in> set (member_roles m) \<longrightarrow>
      RemoveRole (member_id m) (role_id r) \<in> set (fst (strip_phase gw dc r ms)))
   \<and> filter is_remove (fst (strip_phase gw dc r ms)) = strip_calls r ms
   \<and> (selectLeaderboard d (guild_id g) \<noteq> [] \<longrightarrow>
        (\<exists>rest. fst (rotateCrown gw d g r) = strip_calls r (members g) @ rest
           \<and> \<not> list_ex is_remove rest))
   \<and> (selectLeaderboard d (guild_id g) = e # es \<longrightarrow>
        (case defaultChannel d g of
           None \<Rightarrow>
             if failed_holders gw r (members g) \<noteq> []
             then rotateCrown gw d g r = (strip_calls r (members g), Inr ())
             else rotateCrown gw d g r =
               (strip_calls r (members g)
                  @ fst (grant_phase gw d None g r (members_get g (user_id e))),
                snd (grant_phase gw d None g r (members_get g (user_id e))))
         | Some ch \<Rightarrow>
             if list_ex (\<lambda>m. \<not> send_ok gw ch (StripNotice (role_mention r) (member_mention m)))
                  (failed_holders gw r (members g))
             then rotateCrown gw d g r =
               (strip_calls r (members g) @ strip_notices ch r (failed_holders gw r (members g)),
                Inl SendRejected)
             else rotateCrown gw d g r =
               (strip_calls r (members g) @ strip_notices ch r (failed_holders gw r (members g))
                  @ fst (grant_phase gw d (Some ch) g r (members_get g (user_id e))),
                snd (grant_phase gw d (Some ch) g r (members_get g (user_id e))))))
   \<and> \<not> list_ex is_remove (fst (grant_phase gw d (defaultChannel d g) g r w))"
proof (intro conjI impI ballI)
  fix m assume "m \<in> set ms" "role_id r \<in> set (member_roles m)"
  then have "RemoveRole (member_id m) (role_id r) \<in> set (strip_calls r ms)"
    by (auto simp: strip_calls_def holders_def)
  then show "RemoveRole (member_id m) (role_id r) \<in> set (fst (strip_phase gw dc r ms))"
    by (simp add: strip_phase_trace)
next
  show "filter is_remove (fst (strip_phase gw dc r ms)) = strip_calls r ms"
    by (simp add: strip_phase_trace strip_calls_filter handled_no_remove)
next
  assume lb: "selectLeaderboard d (guild_id g) \<noteq> []"
  let ?N = "concat (map (handled \<circ> strip_member gw (defaultChannel d g) r) (members g))"
  have N: "\<not> list_ex is_remove ?N"
    using handled_no_remove [of gw "defaultChannel d g" r "members g"]
    by (simp add: filter_empty_conv list_ex_iff)
  from rotateCrown_after_strip [OF lb, of gw r]
  show "\<exists>rest. fst (rotateCrown gw d g r) = strip_calls r (members g) @ rest
           \<and> \<not> list_ex is_remove rest"
  proof (elim disjE exE)
    assume "fst (rotateCrown gw d g r) = fst (strip_phase gw (defaultChannel d g) r (members g))"
    then have "fst (rotateCrown gw d g r) = strip_calls r (members g) @ ?N"
      by (simp add: strip_phase_trace)
    with N show ?thesis by blast
  next
    fix w
    assume "fst (rotateCrown gw d g r)
          = fst (strip_phase gw (defaultChannel d g) r (members g))
            @ fst (grant_phase gw d (defaultChannel d g) g r w)"
    then have "fst (rotateCrown gw d g r)
      = strip_calls r (members g) @ (?N @ fst (grant_phase gw d (defaultChannel d g) g r w))"
      by (simp add: strip_phase_trace)
    moreover have "\<not> list_ex is_remove (?N @ fst (grant_phase gw d (defaultChannel d g) g r w))"
      using N grant_phase_no_remove by simp
    ultimately show ?thesis by blast
  qed
next
  assume "selectLeaderboard d (guild_id g) = e # es"
  then show "case defaultChannel d g of
           None \<Rightarrow>
             if failed_holders gw r (members g) \<noteq> []
             then rotateCrown gw d g r = (strip_calls r (members g), Inr ())
             else rotateCrown gw d g r =
               (strip_calls r (members g)
                  @ fst (grant_phase gw d None g r (members_get g (user_id e))),
                snd (grant_phase gw d None g r (members_get g (user_id e))))
         | Some ch \<Rightarrow>
             if list_ex (\<lambda>m. \<not> send_ok gw ch (StripNotice (role_mention r) (member_mention m)))
                  (failed_holders gw r (members g))
             then rotateCrown gw d g r =
               (strip_calls r (members g) @ strip_notices ch r (failed_holders gw r (members g)),
                Inl SendRejected)
             else rotateCrown gw d g r =
               (strip_calls r (members g) @ strip_notices ch r (failed_holders gw r (members g))
                  @ fst (grant_phase gw d (Some ch) g r (members_get g (user_id e))),
                snd (grant_phase gw d (Some ch) g r (members_get g (user_id e))))"
    by (rule rotateCrown_decision)
next
  show "\<not> list_ex is_remove (fst (grant_phase gw d (defaultChannel d g) g r w))"
    by (rule grant_phase_no_remove)
qed

theorem strip_full_fan_out_witness:
  "m2 \<in> set (members g0) \<and> role_id crown \<in> set (member_roles m2)
   \<and> RemoveRole ''2'' ''900'' \<in> set (fst (strip_phase (gw_fail_remove [''1'']) None crown (members g0)))
   \<and> failed_holders (gw_fail_remove [''2'']) crown (members g0) = [m2]
   \<and> rotateCrown (gw_fail_remove [''2''])
        (db0 None [\<lparr>user_id = ''3'', points = 7\<rparr>] (Some ''Hail ?member'')) g0 crown
       = ([RemoveRole ''1'' ''900'', RemoveRole ''2'' ''900''], Inr ())
   \<and> rotateCrown (gw_fail_remove [''2''])
        (db0 (Some ''500'') [\<lparr>user_id = ''3'', points = 7\<rparr>] None) g0 crown
       = ([RemoveRole ''1'' ''900'', RemoveRole ''2'' ''900'',
           Send ''500'' (StripNotice ''<@&900>'' ''<@2>''),
           AddRole ''3'' ''900'', ClearPoints ''77'', LogTransferred ''Agora'' ''Cy''], Inr ())"
proof -
  let ?gw = "gw_fail_remove [''2'']"
  let ?e = "\<lparr>user_id = ''3'', points = 7\<rparr>"
  let ?d = "db0 None [?e] (Some ''Hail ?member'')"
  let ?d' = "db0 (Some ''500'') [?e] None"
  have a: "m2 \<in> set (members g0)" and b: "role_id crown \<in> set (member_roles m2)"
    by (simp_all add: g0_def m2_def crown_def)
  from strip_full_fan_out [of "members g0" crown "gw_fail_remove [''1'']" None] a b
  have c: "RemoveRole (member_id m2) (role_id crown)
      \<in> set (fst (strip_phase (gw_fail_remove [''1'']) None crown (members g0)))"
    by blast
  have fh: "failed_holders ?gw crown (members g0) = [m2]"
    by (simp add: failed_holders_def holders_def g0_def m1_def m2_def m3_def crown_def
        gw_fail_remove_def)
  have sc: "strip_calls crown (members g0) = [RemoveRole ''1'' ''900'', RemoveRole ''2'' ''900'']"
    by (simp add: strip_calls_def holders_def g0_def m1_def m2_def m3_def crown_def)
  have lb: "selectLeaderboard ?d (guild_id g0) = ?e # []"
    and lb': "selectLeaderboard ?d' (guild_id g0) = ?e # []"
    by (simp_all add: db0_def)
  have dc: "defaultChannel ?d g0 = None" and dc': "defaultChannel ?d' g0 = Some ''500''"
    by (simp_all add: defaultChannel_def channels_get_def db0_def g0_def)
  have ok: "send_ok ?gw ''500'' (StripNotice (role_mention crown) (member_mention m2))"
    by (simp add: gw_fail_remove_def)
  have sn: "strip_notices ''500'' crown [m2] = [Send ''500'' (StripNotice ''<@&900>'' ''<@2>'')]"
    by (simp add: strip_notices_def crown_def m2_def)
  have gp: "grant_phase ?gw ?d' (Some ''500'') g0 crown (members_get g0 (user_id ?e))
      = ([AddRole ''3'' ''900'', ClearPoints ''77'', LogTransferred ''Agora'' ''Cy''], Inr ())"
    by (simp add: run_defs)
  from strip_full_fan_out [of "[]" crown ?gw None ?d g0 ?e "[]"] lb dc fh sc
  have r1: "rotateCrown ?gw ?d g0 crown
      = ([RemoveRole ''1'' ''900'', RemoveRole ''2'' ''900''], Inr ())"
    by simp
  from strip_full_fan_out [of "[]" crown ?gw None ?d' g0 ?e "[]"] lb' dc' fh sc ok sn gp
  have r2: "rotateCrown ?gw ?d' g0 crown
      = ([RemoveRole ''1'' ''900'', RemoveRole ''2'' ''900'',
           Send ''500'' (StripNotice ''<@&900>'' ''<@2>''),
           AddRole ''3'' ''900'', ClearPoints ''77'', LogTransferred ''Agora'' ''Cy''], Inr ())"
    by simp
  from a b c fh r1 r2 show ?thesis by (simp add: m2_def crown_def)
qed

text \<open>
  C10.  \<open>quit\<close> is set exactly when there is no default channel and the removal fails
  for some holder.  In such a cycle nothing follows the strip phase: the cycle returns
  with the \<open>removeRole\<close> calls as its only calls, so without \<open>addRole\<close> and
  without \<open>clearPoints\<close>.
\<close>

theorem strip_abort_without_channel:
  "(fst (snd (strip_phase gw dc r ms)) \<longleftrightarrow>
      dc = None \<and> (\<exists>m \<in> set ms. role_id r \<in> set (member_roles m)
                      \<and> \<not> removeRole_ok gw (member_id m) (role_id r)))
   \<and> (defaultChannel d g = None \<and> selectLeaderboard d (guild_id g) \<noteq> []
        \<and> (\<exists>m \<in> set (members g). role_id r \<in> set (member_roles m)
                      \<and> \<not> removeRole_ok gw (member_id m) (role_id r))
      \<longrightarrow> rotateCrown gw d g r = (strip_calls r (members g), Inr ()))"
proof (intro conjI impI)
  show "fst (snd (strip_phase gw dc r ms)) \<longleftrightarrow>
      dc = None \<and> (\<exists>m \<in> set ms. role_id r \<in> set (member_roles m)
                      \<and> \<not> removeRole_ok gw (member_id m) (role_id r))"
    by (rule strip_phase_quit)
next
  assume h: "defaultChannel d g = None \<and> selectLeaderboard d (guild_id g) \<noteq> []
        \<and> (\<exists>m \<in> set (members g). role_id r \<in> set (member_roles m)
                      \<and> \<not> removeRole_ok gw (member_id m) (role_id r))"
  then have q: "fst (snd (strip_phase gw None r (members g)))"
    by (simp add: strip_phase_quit)
  have rj: "\<not> snd (snd (strip_phase gw None r (members g)))"
    by (simp add: strip_phase_rejected)
  have t: "fst (strip_phase gw None r (members g)) = strip_calls r (members g)"
    by (simp add: strip_phase_trace handled_without_channel)
  obtain e es where lb: "selectLeaderboard d (guild_id g) = e # es"
    using h by (cases "selectLeaderboard d (guild_id g)") auto
  from q rj t show "rotateCrown gw d g r = (strip_calls r (members g), Inr ())"
    by (cases "strip_phase gw None r (members g)") (simp add: rotateCrown_def Let_def lb h)
qed

theorem strip_abort_without_channel_witness:
  "defaultChannel (db0 None [\<lparr>user_id = ''3'', points = 50\<rparr>] None) g0 = None
   \<and> \<not> removeRole_ok (gw_fail_remove [''2'']) (member_id m2) (role_id crown)
   \<and> rotateCrown (gw_fail_remove [''2'']) (db0 None [\<lparr>user_id = ''3'', points = 50\<rparr>] None) g0 crown
       = ([RemoveRole ''1'' ''900'', RemoveRole ''2'' ''900''], Inr ())"
proof -
  let ?d = "db0 None [\<lparr>user_id = ''3'', points = 50\<rparr>] None"
  have a: "defaultChannel ?d g0 = None" by (simp add: defaultChannel_def db0_def)
  have b: "selectLeaderboard ?d (guild_id g0) \<noteq> []" by (simp add: db0_def)
  have c: "m2 \<in> set (members g0)" "role_id crown \<in> set (member_roles m2)"
    "\<not> removeRole_ok (gw_fail_remove [''2'']) (member_id m2) (role_id crown)"
    by (simp_all add: g0_def m2_def crown_def gw_fail_remove_def)
  from strip_abort_without_channel [of "gw_fail_remove [''2'']" None crown "[]" ?d g0] a b c
  have "rotateCrown (gw_fail_remove [''2'']) ?d g0 crown = (strip_calls crown (members g0), Inr ())"
    by blast
  moreover have "strip_calls crown (members g0) = [RemoveRole ''1'' ''900'', RemoveRole ''2'' ''900'']"
    by (simp add: strip_calls_def holders_def g0_def m1_def m2_def m3_def crown_def)
  ultimately show ?thesis using a c by simp
qed
section \<open>Strip failures with a notification channel\<close>

text \<open>
  C2.  Guild 77 has the default channel 500, the members 1 and 2 hold the crown role and
  both removals fail.  The cycle sends two notices, not one, does not stop, and goes on
  to add the role to the winner and to clear the points.
\<close>

theorem strip_failure_with_channel_continues:
  "rotateCrown (gw_fail_remove [''1'', ''2''])
     (db0 (Some ''500'') [\<lparr>user_id = ''3'', points = 50\<rparr>] (Some ''Hail ?member, our ?role'')) g0 crown
   = ([RemoveRole ''1'' ''900'', RemoveRole ''2'' ''900'',
       Send ''500'' (StripNotice ''<@&900>'' ''<@1>''),
       Send ''500'' (StripNotice ''<@&900>'' ''<@2>''),
       AddRole ''3'' ''900'', ClearPoints ''77'',
       Send ''500'' (CrownMessage ''Hail <@3>, our <@&900>''),
       LogTransferred ''Agora'' ''Cy''], Inr ())"
  by (simp add: run_defs)

section \<open>Winner who has left the guild\<close>

text \<open>
  C5.  The top entry of the leaderboard names user 42, who is not a member of guild 77.
  The role is removed from both holders all the same; the failure is noticed only in the
  grant phase, where no role-add is made and the points are kept.
\<close>

theorem absent_winner_still_strips:
  "rotateCrown (gw_fail_remove [])
     (db0 (Some ''500'') [\<lparr>user_id = ''42'', points = 50\<rparr>] None) g0 crown
   = ([RemoveRole ''1'' ''900'', RemoveRole ''2'' ''900'',
       Send ''500'' (GrantNotice ''<@&900>'' ''undefined'')], Inr ())"
  by (simp add: run_defs)
section \<open>Empty leaderboard\<close>

text \<open>
  C4.  On an empty leaderboard the cycle makes no call at all (no role-remove, no
  role-add, no point-clear, no message), but it does not end silently: reading the top
  entry throws, and the promise of the cycle is rejected with a TypeError.
\<close>

theorem rotateCrown_empty_leaderboard_throws:
  "rotateCrown (gw_fail_remove []) (db0 (Some ''500'') [] None) g0 crown = ([], Inl TypeError)"
  by (simp add: rotateCrown_def db0_def g0_def)

section \<open>Failures that leave the cycle\<close>

text \<open>
  C6, as stated, fails: the promise of the cycle is rejected on an empty leaderboard, on
  a winner who is no member when there is no default channel, and when a notice cannot
  be sent.
\<close>

theorem rotateCrown_throws:
  "snd (rotateCrown (gw_fail_remove []) (db0 None [] None) g0 crown) = Inl TypeError
   \<and> snd (rotateCrown (gw_fail_remove []) (db0 None [\<lparr>user_id = ''42'', points = 50\<rparr>] None) g0 crown)
       = Inl TypeError
   \<and> snd (rotateCrown gw_fail_send (db0 (Some ''500'') [\<lparr>user_id = ''3'', points = 50\<rparr>] None) g0 crown)
       = Inl SendRejected"
  by (simp add: run_defs gw_fail_send_def)

text \<open>
  C6, amended.  When the leaderboard is not empty, its top user is a member and no
  \<open>send\<close> is rejected, the cycle returns normally whatever \<open>removeRole\<close> and
  \<open>addRole\<close> answer; and a fire of a job leaves the scheduled jobs as they are.
\<close>

theorem member_winner_cycle_returns:
  assumes "selectLeaderboard d (guild_id g) = e # es"
    and "members_get g (user_id e) = Some w"
    and "\<forall>ch msg. send_ok gw ch msg"
  shows "snd (rotateCrown gw d g r) = Inr ()
    \<and> fst (fire gw d g j s) = s \<and> snd (snd (fire gw d g j s)) = Inr ()"
proof -
  have rj: "\<not> snd (snd (strip_phase gw (defaultChannel d g) r (members g)))"
    using assms(3) by (simp add: strip_phase_rejected)
  have "snd (rotateCrown gw d g r') = Inr ()" for r'
  proof -
    have "\<not> snd (snd (strip_phase gw (defaultChannel d g) r' (members g)))"
      using assms(3) by (simp add: strip_phase_rejected)
    then show ?thesis
      by (cases "strip_phase gw (defaultChannel d g) r' (members g)")
         (simp add: rotateCrown_def Let_def assms(1,2) grant_phase_returns [OF assms(3)])
  qed
  then show ?thesis by (simp add: fire_def)
qed

theorem member_winner_cycle_returns_witness:
  "selectLeaderboard (db0 (Some ''500'') [\<lparr>user_id = ''3'', points = 50\<rparr>] None) (guild_id g0)
     = [\<lparr>user_id = ''3'', points = 50\<rparr>]
   \<and> members_get g0 ''3'' = Some m3
   \<and> \<not> removeRole_ok (gw_fail_remove [''1'', ''2'']) ''1'' ''900''
   \<and> snd (rotateCrown (gw_fail_remove [''1'', ''2''])
        (db0 (Some ''500'') [\<lparr>user_id = ''3'', points = 50\<rparr>] None) g0 crown) = Inr ()"
proof -
  let ?d = "db0 (Some ''500'') [\<lparr>user_id = ''3'', points = 50\<rparr>] None"
  have a: "selectLeaderboard ?d (guild_id g0) = \<lparr>user_id = ''3'', points = 50\<rparr> # []"
    by (simp add: db0_def)
  have b: "members_get g0 (user_id \<lparr>user_id = ''3'', points = 50\<rparr>) = Some m3"
    by (simp add: members_get_def g0_def m1_def m2_def m3_def)
  have c: "\<forall>ch msg. send_ok (gw_fail_remove [''1'', ''2'']) ch msg"
    by (simp add: gw_fail_remove_def)
  from member_winner_cycle_returns [OF a b c, of crown] a b
  show ?thesis by (simp add: gw_fail_remove_def)
qed

section \<open>Scheduling\<close>

text \<open>
  C8.  When points are disabled, or the crown role id is missing or names no role of the
  guild, or the schedule is missing, \<open>scheduleCrown\<close> schedules nothing: the
  scheduler and the guild, with its \<open>job\<close>, are unchanged.
\<close>

theorem ineligible_installs_no_job:
  assumes "\<not> truthy_int (selectUsePoints d (guild_id g))
     \<or> \<not> truthy (selectCrownRoleId d (guild_id g))
     \<or> (\<exists>i. selectCrownRoleId d (guild_id g) = Some i \<and> roles_get g i = None)
     \<or> \<not> truthy (selectCrownSchedule d (guild_id g))"
  shows "scheduleCrown parses d s g = (s, g, [LogScheduled (guild_name g)])"
  using assms
  by (auto simp: scheduleCrown_def crownRole_def truthy_def split: option.splits bool.splits)

theorem ineligible_installs_no_job_witness:
  "\<not> truthy_int (selectUsePoints (db1 (Some 0) (Some ''900'') (Some ''0 0 * * 0'')) (guild_id g0))
   \<and> fst (scheduleCrown (\<lambda>_. True) (db1 (Some 0) (Some ''900'') (Some ''0 0 * * 0'')) s0 g0) = s0
   \<and> roles_get g0 ''901'' = None
   \<and> fst (scheduleCrown (\<lambda>_. True) (db1 (Some 1) (Some ''901'') (Some ''0 0 * * 0'')) s0 g0) = s0
   \<and> \<not> truthy (selectCrownSchedule (db1 (Some 1) (Some ''900'') None) (guild_id g0))
   \<and> fst (scheduleCrown (\<lambda>_. True) (db1 (Some 1) (Some ''900'') None) s0 g0) = s0"
proof -
  have a: "\<not> truthy_int (selectUsePoints (db1 (Some 0) (Some ''900'') (Some ''0 0 * * 0'')) (guild_id g0))"
    by (simp add: truthy_int_def db1_def)
  have b: "selectCrownRoleId (db1 (Some 1) (Some ''901'') (Some ''0 0 * * 0'')) (guild_id g0) = Some ''901''"
    "roles_get g0 ''901'' = None"
    by (simp_all add: db1_def roles_get_def g0_def crown_def)
  have c: "\<not> truthy (selectCrownSchedule (db1 (Some 1) (Some ''900'') None) (guild_id g0))"
    by (simp add: truthy_def db1_def)
  from a b c
    ineligible_installs_no_job [of "db1 (Some 0) (Some ''900'') (Some ''0 0 * * 0'')" g0 "\<lambda>_. True" s0]
    ineligible_installs_no_job [of "db1 (Some 1) (Some ''901'') (Some ''0 0 * * 0'')" g0 "\<lambda>_. True" s0]
    ineligible_installs_no_job [of "db1 (Some 1) (Some ''900'') None" g0 "\<lambda>_. True" s0]
  show ?thesis by simp
qed

text \<open>
  C3, as stated, fails: after two calls for guild 77 the scheduler holds two jobs of that
  guild, the first one still among them.
\<close>

theorem scheduleCrown_twice_two_jobs:
  "map job_no (filter (\<lambda>j. job_guild j = ''77'')
     (scheduledJobs (fst (scheduleCrown (\<lambda>_. True) (db1 (Some 1) (Some ''900'') (Some ''0 0 * * 0''))
        (fst (scheduleCrown (\<lambda>_. True) (db1 (Some 1) (Some ''900'') (Some ''0 0 * * 0'')) s0 g0))
        (fst (snd (scheduleCrown (\<lambda>_. True) (db1 (Some 1) (Some ''900'') (Some ''0 0 * * 0'')) s0 g0)))))))
   = [0, 1]"
  by (simp add: scheduleCrown_def scheduleJob_def crownRole_def roles_get_def truthy_int_def
      db1_def g0_def s0_def crown_def)

text \<open>
  C3, amended.  For an eligible guild whose schedule parses, \<open>scheduleCrown\<close> adds one
  job to those already scheduled, cancels none, and stores the handle of the new job in
  \<open>guild.job\<close>, over the handle stored there before.
\<close>

theorem scheduleCrown_adds_job:
  assumes "truthy_int (selectUsePoints d (guild_id g))"
    and "crownRole d g = Some r"
    and "selectCrownSchedule d (guild_id g) = Some cron" and "cron \<noteq> []"
    and "parses cron"
  shows "scheduleCrown parses d s g =
    (\<lparr>scheduledJobs = scheduledJobs s
        @ [\<lparr>job_no = next_no s, job_cron = cron, job_guild = guild_id g, job_role = r\<rparr>],
      next_no = Suc (next_no s)\<rparr>,
     g\<lparr>job := Some (next_no s)\<rparr>,
     [LogScheduled (guild_name g)])"
  using assms by (simp add: scheduleCrown_def scheduleJob_def)

theorem scheduleCrown_adds_job_witness:
  "truthy_int (selectUsePoints (db1 (Some 1) (Some ''900'') (Some ''0 0 * * 0'')) (guild_id g0))
   \<and> crownRole (db1 (Some 1) (Some ''900'') (Some ''0 0 * * 0'')) g0 = Some crown
   \<and> map job_no (scheduledJobs (fst (scheduleCrown (\<lambda>_. True)
         (db1 (Some 1) (Some ''900'') (Some ''0 0 * * 0''))
         \<lparr>scheduledJobs = [\<lparr>job_no = 0, job_cron = ''0 0 * * 0'', job_guild = ''77'', job_role = crown\<rparr>],
          next_no = 1\<rparr>
         (g0\<lparr>job := Some 0\<rparr>)))) = [0, 1]
   \<and> job (fst (snd (scheduleCrown (\<lambda>_. True)
         (db1 (Some 1) (Some ''900'') (Some ''0 0 * * 0''))
         \<lparr>scheduledJobs = [\<lparr>job_no = 0, job_cron = ''0 0 * * 0'', job_guild = ''77'', job_role = crown\<rparr>],
          next_no = 1\<rparr>
         (g0\<lparr>job := Some 0\<rparr>)))) = Some 1"
proof -
  let ?d = "db1 (Some 1) (Some ''900'') (Some ''0 0 * * 0'')"
  let ?g = "g0\<lparr>job := Some 0\<rparr>"
  have a: "truthy_int (selectUsePoints ?d (guild_id ?g))" by (simp add: truthy_int_def db1_def)
  have b: "crownRole ?d ?g = Some crown"
    by (simp add: crownRole_def roles_get_def db1_def g0_def crown_def)
  have c: "selectCrownSchedule ?d (guild_id ?g) = Some ''0 0 * * 0''" by (simp add: db1_def)
  have a': "truthy_int (selectUsePoints ?d (guild_id g0))" by (simp add: truthy_int_def db1_def)
  have b': "crownRole ?d g0 = Some crown"
    by (simp add: crownRole_def roles_get_def db1_def g0_def crown_def)
  from scheduleCrown_adds_job [OF a b c, of "\<lambda>_. True"] a' b'
  show ?thesis by simp
qed


section \<open>The crown message\<close>

text \<open>
  C9, as stated, fails: of a placeholder that occurs twice only the first occurrence is
  substituted.
\<close>

theorem crown_message_repeated_placeholder:
  "render_crown_message ''?member and ?member'' ''<@3>'' ''<@&900>'' = ''<@3> and ?member''
   \<and> render_crown_message ''?member and ?member'' ''<@3>'' ''<@&900>'' \<noteq> ''<@3> and <@3>''"
  by (simp add: render_crown_message_def js_replace_def)

text \<open>
  C9, amended.  Rendering replaces the first occurrence of \<open>?member\<close> in the template,
  and then the first occurrence of \<open>?role\<close> in the result, and nothing else (for
  references without a dollar sign, as mentions are).
\<close>

theorem crown_message_first_occurrences:
  assumes "CHR ''$'' \<notin> set mref" and "CHR ''$'' \<notin> set rref"
  shows "replaces_first ''?member'' mref t (js_replace ''?member'' mref t)
    \<and> replaces_first ''?role'' rref (js_replace ''?member'' mref t) (render_crown_message t mref rref)"
  unfolding render_crown_message_def using assms by (simp add: js_replace_first)

theorem crown_message_first_occurrences_witness:
  "CHR ''$'' \<notin> set ''<@3>'' \<and> CHR ''$'' \<notin> set ''<@&900>''
   \<and> replaces_first ''?member'' ''<@3>'' ''?role ?member ?role ?member'' ''?role <@3> ?role ?member''
   \<and> replaces_first ''?role'' ''<@&900>'' ''?role <@3> ?role ?member'' ''<@&900> <@3> ?role ?member''"
proof -
  have a: "CHR ''$'' \<notin> set ''<@3>''" and b: "CHR ''$'' \<notin> set ''<@&900>''" by simp_all
  have c: "js_replace ''?member'' ''<@3>'' ''?role ?member ?role ?member'' = ''?role <@3> ?role ?member''"
    by (simp add: js_replace_def)
  have d: "render_crown_message ''?role ?member ?role ?member'' ''<@3>'' ''<@&900>''
      = ''<@&900> <@3> ?role ?member''"
    by (simp add: render_crown_message_def js_replace_def)
  from crown_message_first_occurrences [OF a b, of "''?role ?member ?role ?member''"] a b
  show ?thesis unfolding c d by simp
qed

end
